theory Spec2Isabelle
  imports Complex_Main "HOL-Library.AList"
begin

section \<open>JavaScript values used by both workers\<close>

text \<open>
  A JavaScript Number. A finite double is read as the rational it denotes; the rounding
  of double arithmetic is not modelled. \<open>NaN\<close> is what \<open>Number\<close>, \<open>parseInt\<close> and
  \<open>Date.parse\<close> give on text they cannot parse.
\<close>

datatype jsnum = NaN | NegInf | Fin rat | PosInf

text \<open>\<open>a < b\<close> on Numbers: false as soon as one side is NaN.\<close>

fun js_less :: "jsnum \<Rightarrow> jsnum \<Rightarrow> bool" where
  "js_less NaN b = False"
| "js_less a NaN = False"
| "js_less PosInf b = False"
| "js_less a NegInf = False"
| "js_less NegInf b = True"
| "js_less a PosInf = True"
| "js_less (Fin x) (Fin y) = (x < y)"

text \<open>\<open>Number.isFinite\<close>.\<close>

fun isFinite :: "jsnum \<Rightarrow> bool" where
  "isFinite (Fin x) = True"
| "isFinite n = False"

text \<open>Truthiness of a Number: \<open>0\<close> and \<open>NaN\<close> are falsy.\<close>

fun truthy_num :: "jsnum \<Rightarrow> bool" where
  "truthy_num NaN = False"
| "truthy_num (Fin x) = (x \<noteq> 0)"
| "truthy_num n = True"

text \<open>
  \<open>Math.max(...xs)\<close> and \<open>Math.min(...xs)\<close>: NaN as soon as one argument is NaN,
  \<open>-Infinity\<close> and \<open>Infinity\<close> on no argument.
\<close>

fun max2 :: "jsnum \<Rightarrow> jsnum \<Rightarrow> jsnum" where
  "max2 NaN b = NaN"
| "max2 a NaN = NaN"
| "max2 a b = (if js_less a b then b else a)"

fun min2 :: "jsnum \<Rightarrow> jsnum \<Rightarrow> jsnum" where
  "min2 NaN b = NaN"
| "min2 a NaN = NaN"
| "min2 a b = (if js_less b a then b else a)"

definition Math_max :: "jsnum list \<Rightarrow> jsnum" where
  "Math_max xs = foldl max2 NegInf xs"

definition Math_min :: "jsnum list \<Rightarrow> jsnum" where
  "Math_min xs = foldl min2 PosInf xs"

text \<open>
  Strings are byte strings; the addresses, hex numbers and list separators the workers
  look at are ASCII. \<open>toLowerCase\<close> maps \<open>A\<close>..\<open>Z\<close> to \<open>a\<close>..\<open>z\<close>.
\<close>

definition lower_char :: "char \<Rightarrow> char" where
  "lower_char c =
     (case map_of (zip ''ABCDEFGHIJKLMNOPQRSTUVWXYZ'' ''abcdefghijklmnopqrstuvwxyz'') c of
        None \<Rightarrow> c
      | Some d \<Rightarrow> d)"

definition toLowerCase :: "string \<Rightarrow> string" where
  "toLowerCase s = map lower_char s"

text \<open>\<open>trim\<close>: the ASCII white space (tab, line feed, vertical tab, form feed, carriage
  return, space) is removed at both ends.\<close>

definition is_space :: "char \<Rightarrow> bool" where
  "is_space c = (c \<in> set [CHR 0x09, CHR 0x0A, CHR 0x0B, CHR 0x0C, CHR 0x0D, CHR 0x20])"

definition trim_start :: "string \<Rightarrow> string" where
  "trim_start s = dropWhile is_space s"

definition trim :: "string \<Rightarrow> string" where
  "trim s = rev (dropWhile is_space (rev (dropWhile is_space s)))"

text \<open>\<open>s.split(',')\<close>: the empty string splits into one empty part.\<close>

fun split_on :: "char \<Rightarrow> string \<Rightarrow> string list" where
  "split_on d [] = [[]]"
| "split_on d (c # cs) =
     (if c = d then [] # split_on d cs
      else (case split_on d cs of
              [] \<Rightarrow> [[c]]
            | p # ps \<Rightarrow> (c # p) # ps))"

text \<open>\<open>x || dflt\<close> on a string that may be missing: the empty string is falsy too.\<close>

definition or_else :: "string option \<Rightarrow> string \<Rightarrow> string" where
  "or_else x dflt = (case x of None \<Rightarrow> dflt | Some s \<Rightarrow> if s = [] then dflt else s)"

text \<open>The character classes of the address patterns.\<close>

definition is_lower_hex :: "char \<Rightarrow> bool" where
  "is_lower_hex c = (c \<in> set ''0123456789abcdef'')"

definition is_hex :: "char \<Rightarrow> bool" where
  "is_hex c = (c \<in> set ''0123456789abcdefABCDEF'')"

text \<open>\<open>/^0x[a-f0-9]{40}$/.test(s)\<close> and \<open>/^0x[a-fA-F0-9]{40}$/.test(s)\<close>.\<close>

definition lower_hex_address :: "string \<Rightarrow> bool" where
  "lower_hex_address s = (length s = 42 \<and> take 2 s = ''0x'' \<and> list_all is_lower_hex (drop 2 s))"

definition hex_address :: "string \<Rightarrow> bool" where
  "hex_address s = (length s = 42 \<and> take 2 s = ''0x'' \<and> list_all is_hex (drop 2 s))"

text \<open>
  \<open>parseInt(h, 16)\<close> on a string: leading white space and one sign are skipped, then an
  optional \<open>0x\<close> or \<open>0X\<close>, and the longest run of hex digits is read; no digit gives NaN
  (\<open>None\<close>). The value is kept as the exact integer (a double rounds it above \<open>2^53\<close>,
  which moves no value to or below \<open>3\<close>).
\<close>

definition hex_digit :: "char \<Rightarrow> int option" where
  "hex_digit c =
     map_of (zip ''0123456789abcdefABCDEF''
               [0, 1, 2, 3, 4, 5, 6, 7, 8, 9, 10, 11, 12, 13, 14, 15, 10, 11, 12, 13, 14, 15]) c"

definition strip_sign :: "string \<Rightarrow> int \<times> string" where
  "strip_sign s =
     (case s of
        [] \<Rightarrow> (1, [])
      | c # cs \<Rightarrow> if c = CHR ''-'' then (- 1, cs) else if c = CHR ''+'' then (1, cs) else (1, s))"

definition strip_0x :: "string \<Rightarrow> string" where
  "strip_0x s = (if take 2 s = ''0x'' \<or> take 2 s = ''0X'' then drop 2 s else s)"

definition hex_value :: "string \<Rightarrow> int" where
  "hex_value ds = foldl (\<lambda>acc c. case hex_digit c of None \<Rightarrow> acc | Some d \<Rightarrow> 16 * acc + d) 0 ds"

definition parseInt16 :: "string \<Rightarrow> int option" where
  "parseInt16 h =
     (let (sign, s) = strip_sign (trim_start h);
          z = takeWhile (\<lambda>c. hex_digit c \<noteq> None) (strip_0x s)
      in if z = [] then None else Some (sign * hex_value z))"

text \<open>
  \<open>x.toFixed(6)\<close>: the sign is taken before rounding, the magnitude is rounded to the
  nearest millionth (the larger one on a tie) and printed with six decimals. From
  \<open>10^21\<close> on JavaScript prints exponent notation instead; the model keeps the fixed
  notation there.
\<close>

definition digit_char :: "nat \<Rightarrow> char" where
  "digit_char d = ''0123456789'' ! (d mod 10)"

fun digits_of :: "nat \<Rightarrow> string" where
  "digits_of n = (if n < 10 then [digit_char n] else digits_of (n div 10) @ [digit_char (n mod 10)])"

declare digits_of.simps [simp del]

definition toFixed6 :: "jsnum \<Rightarrow> string" where
  "toFixed6 x =
     (case x of
        NaN \<Rightarrow> ''NaN''
      | PosInf \<Rightarrow> ''Infinity''
      | NegInf \<Rightarrow> ''-Infinity''
      | Fin q \<Rightarrow>
          (let s = (if q < 0 then ''-'' else '''');
               n = nat \<lfloor>\<bar>q\<bar> * 1000000 + 1 / 2\<rfloor>;
               m = digits_of n;
               m' = replicate (7 - length m) CHR ''0'' @ m;
               k = length m'
           in s @ take (k - 6) m' @ ''.'' @ drop (k - 6) m'))"

text \<open>
  A template literal: its fixed text and its \<open>${...}\<close> substitutions, a Number being
  left to JavaScript's own printing.
\<close>

datatype piece = Lit string | Num jsnum

type_synonym template = "piece list"

section \<open>The upstream JSON-RPC provider\<close>

text \<open>
  A transfer as the provider returns it. \<open>raw_value\<close> is \<open>None\<close> when \<open>t.value\<close> is
  null or undefined, and otherwise holds \<open>Number(t.value)\<close>, NaN when the value does not
  parse. \<open>raw_blockTimestamp\<close> is \<open>None\<close> when \<open>t.metadata.blockTimestamp\<close> is missing
  or empty, and otherwise holds \<open>Date.parse\<close> of it, NaN when it does not parse.
\<close>

record raw_transfer =
  raw_hash :: "string option"
  raw_from :: "string option"
  raw_to :: "string option"
  raw_value :: "jsnum option"
  raw_blockTimestamp :: "jsnum option"

text \<open>
  The body of a JSON-RPC request. The fields of the transfer query that never change
  (\<open>fromBlock\<close>, \<open>toBlock\<close>, \<open>category\<close>, \<open>withMetadata\<close>, \<open>excludeZeroValue\<close>,
  \<open>maxCount\<close>, \<open>order\<close>) are left out.
\<close>

datatype rpc_params =
    Address_Latest string
  | Transfers_From string
  | Transfers_To string

record rpc_body =
  rpc_id :: nat
  rpc_method :: string
  rpc_params :: rpc_params

text \<open>
  What \<open>fetch\<close> brings back: a rejected promise, or an HTTP status with the decoded
  JSON envelope, which holds an error (code, message) or a result.
\<close>

datatype 'a rpc_envelope = Rpc_Error "int option" "string option" | Rpc_Result 'a

datatype 'a http_reply = Fetch_Rejected | Http nat "'a rpc_envelope"

text \<open>
  The provider, as \<open>fetch\<close> reaches it: one endpoint per kind of result, each given the
  URL and the whole request body. The bytecode result may be null (\<open>None\<close>); a transfer
  result is \<open>None\<close> when it is null or has no \<open>transfers\<close> field.
\<close>

record upstream =
  getCode :: "string \<Rightarrow> rpc_body \<Rightarrow> string option http_reply"
  getTransactionCount :: "string \<Rightarrow> rpc_body \<Rightarrow> string http_reply"
  getAssetTransfers :: "string \<Rightarrow> rpc_body \<Rightarrow> raw_transfer list option http_reply"

text \<open>The errors the workers throw, by their message.\<close>

datatype error =
    missing_ALCHEMY_SEPOLIA_URL
  | rpc_http nat
  | rpc_method_error string "int option"
  | rpc_message string
  | fetch_failed

definition response_ok :: "nat \<Rightarrow> bool" where
  "response_ok status = (200 \<le> status \<and> status \<le> 299)"

text \<open>
  A transfer lookup as both workers treat it: \<open>rpc(...).catch(() => ({ transfers: [] }))\<close>
  followed by \<open>res?.transfers || []\<close>. An error gives the empty list.
\<close>

definition transfers_or_empty :: "error + raw_transfer list option \<Rightarrow> raw_transfer list" where
  "transfers_or_empty lookup =
     (let res = (case lookup of Inl e \<Rightarrow> Some [] | Inr r \<Rightarrow> r)
      in case res of None \<Rightarrow> [] | Some ts \<Rightarrow> ts)"

section \<open>The SafeSend worker with \<open>runRiskEval\<close>\<close>

subsection \<open>RPC primitive\<close>

text \<open>
  \<open>rpc(url, method, params)\<close>; \<open>rid\<close> is the request id drawn by
  \<open>Math.floor(Math.random() * 1e9)\<close>, \<open>endpoint\<close> stands for \<open>fetch\<close>.
\<close>

definition rpc ::
  "(string \<Rightarrow> rpc_body \<Rightarrow> 'a http_reply) \<Rightarrow> nat \<Rightarrow> string \<Rightarrow> string \<Rightarrow> rpc_params \<Rightarrow> error + 'a" where
  "rpc endpoint rid url method params =
     (case endpoint url \<lparr>rpc_id = rid, rpc_method = method, rpc_params = params\<rparr> of
        Fetch_Rejected \<Rightarrow> Inl fetch_failed
      | Http status j \<Rightarrow>
          if \<not> response_ok status then Inl (rpc_http status)
          else (case j of
                  Rpc_Error code msg \<Rightarrow>
                    Inl (rpc_method_error method (if code = Some 0 then None else code))
                | Rpc_Result res \<Rightarrow> Inr res))"

subsection \<open>Utils\<close>

record transfer =
  t_hash :: string
  t_from :: string
  t_to :: string
  valueEth :: "jsnum option"
  timestamp :: rat

definition normalizeTransfer :: "raw_transfer \<Rightarrow> transfer" where
  "normalizeTransfer t =
     (let ts = (case raw_blockTimestamp t of None \<Rightarrow> Fin 0 | Some d \<Rightarrow> d);
          valueEth = (case raw_value t of None \<Rightarrow> None | Some n \<Rightarrow> Some n)
      in \<lparr>t_hash = or_else (raw_hash t) '''',
          t_from = toLowerCase (or_else (raw_from t) ''''),
          t_to = toLowerCase (or_else (raw_to t) ''''),
          valueEth = valueEth,
          timestamp = (case ts of Fin x \<Rightarrow> x | _ \<Rightarrow> 0)\<rparr>)"

definition hexToInt :: "string \<Rightarrow> int" where
  "hexToInt h = (case parseInt16 h of None \<Rightarrow> 0 | Some n \<Rightarrow> if n = 0 then 0 else n)"

definition countWithin :: "rat \<Rightarrow> transfer list \<Rightarrow> rat \<Rightarrow> nat" where
  "countWithin nowMs list windowMs =
     (let cutoff = nowMs - windowMs
      in length (filter (\<lambda>t. timestamp t \<ge> cutoff) list))"

record repeats =
  maxRepeats :: nat
  amountStr :: string

text \<open>The \<open>Map\<close> of counts keeps its keys in insertion order.\<close>

fun count_amounts :: "transfer list \<Rightarrow> (string \<times> nat) list \<Rightarrow> (string \<times> nat) list" where
  "count_amounts [] counts = counts"
| "count_amounts (t # ts) counts =
     (case valueEth t of
        None \<Rightarrow> count_amounts ts counts
      | Some v \<Rightarrow>
          (let key = toFixed6 v
           in count_amounts ts
                (AList.update key ((case map_of counts key of None \<Rightarrow> 0 | Some c \<Rightarrow> c) + 1) counts)))"

fun max_count :: "(string \<times> nat) list \<Rightarrow> repeats \<Rightarrow> repeats" where
  "max_count [] r = r"
| "max_count ((k, v) # kvs) r =
     max_count kvs (if v > maxRepeats r then \<lparr>maxRepeats = v, amountStr = k\<rparr> else r)"

definition repeatedAmounts :: "transfer list \<Rightarrow> repeats" where
  "repeatedAmounts list = max_count (count_amounts list []) \<lparr>maxRepeats = 0, amountStr = ''''\<rparr>"

definition freshInThenOut :: "transfer list \<Rightarrow> transfer list \<Rightarrow> rat \<Rightarrow> bool" where
  "freshInThenOut inbound outbound windowMs =
     (case inbound of
        [] \<Rightarrow> False
      | latestIn # older \<Rightarrow>
          if outbound = [] then False
          else (case find (\<lambda>out. timestamp out \<ge> timestamp latestIn) outbound of
                  None \<Rightarrow> False
                | Some firstOutAfter \<Rightarrow> timestamp firstOutAfter - timestamp latestIn \<le> windowMs))"

record factor =
  severity :: string
  label :: string
  reason :: template

definition factor :: "string \<Rightarrow> string \<Rightarrow> template \<Rightarrow> factor" where
  "factor sev lab rsn = \<lparr>severity = sev, label = lab, reason = rsn\<rparr>"

text \<open>\<open>parseCsvList\<close>: the \<open>Set\<close> is kept as the list of its members in insertion order.\<close>

definition parseCsvList :: "string option \<Rightarrow> string list" where
  "parseCsvList str =
     (case str of
        None \<Rightarrow> []
      | Some s \<Rightarrow>
          if s = [] then []
          else foldl (\<lambda>out part.
                        (let a = toLowerCase (trim part)
                         in if lower_hex_address a \<and> a \<notin> set out then out @ [a] else out))
                 [] (split_on CHR '','' s))"

definition has :: "string list \<Rightarrow> string \<Rightarrow> bool" where
  "has s a = (a \<in> set s)"

subsection \<open>Risk evaluation\<close>

record env =
  ALCHEMY_SEPOLIA_URL :: "string option"
  BADLIST :: "string option"
  DUST_WATCHLIST :: "string option"

record risk_result =
  score :: int
  decision :: string
  factors :: "factor list"

text \<open>The two characters of the last labels that are not ASCII, in UTF-8.\<close>

definition rightwards_arrow :: string where
  "rightwards_arrow = [CHR 0xE2, CHR 0x86, CHR 0x92]"

definition less_or_equal_sign :: string where
  "less_or_equal_sign = [CHR 0xE2, CHR 0x89, CHR 0xA4]"

text \<open>
  The factors \<open>runRiskEval\<close> pushes, in the order of its heuristics, from the decoded
  lookups: \<open>code\<close> and \<open>nonce\<close> as returned, \<open>out\<close> and \<open>inn\<close> normalised.
\<close>

definition risk_factors ::
  "rat \<Rightarrow> string list \<Rightarrow> string list \<Rightarrow> string \<Rightarrow> string option \<Rightarrow> string \<Rightarrow>
   transfer list \<Rightarrow> transfer list \<Rightarrow> factor list" where
  "risk_factors nowMs BADLIST_set DUST_WATCH address code nonce out inn =
     (let isContract = (case code of None \<Rightarrow> False | Some c \<Rightarrow> c \<noteq> [] \<and> c \<noteq> ''0x'');
          txCount = hexToInt nonce;
          burst24 = countWithin nowMs out (24 * 60 * 60 * 1000);
          tiny = filter (\<lambda>t. case valueEth t of
                                 None \<Rightarrow> False
                               | Some v \<Rightarrow> js_less (Fin 0) v \<and> js_less v (Fin (5 / 10000))) inn;
          repeatOut = repeatedAmounts out;
          quickOut = freshInThenOut inn out (10 * 60 * 1000);
          touchedWatch = (list_ex (\<lambda>t. has DUST_WATCH (toLowerCase (t_from t))) inn \<or>
                          list_ex (\<lambda>t. has DUST_WATCH (toLowerCase (t_to t))) out)
      in (if has BADLIST_set (toLowerCase address)
          then [factor ''high'' ''On blocklist''
                  [Lit ''Recipient is present in a locally configured blocklist.'']]
          else [])
       @ (if isContract
          then [factor ''medium'' ''Contract address'' [Lit ''Recipient is a contract (non-EOA).'']]
          else [])
       @ (if txCount = 0
          then [factor ''medium'' ''New address''
                  [Lit ''Recipient has no prior transactions (nonce 0).'']]
          else if txCount < 3
          then [factor ''low'' ''Very low activity''
                  [Lit ''Recipient has very limited on-chain activity.'']]
          else [])
       @ (if burst24 \<ge> 10
          then [factor ''high'' ''High-frequency outbounds''
                  [Lit ''~'', Num (Fin (of_nat burst24)), Lit '' outgoing transfers in last 24h.'']]
          else if burst24 \<ge> 5
          then [factor ''medium'' ''Frequent outbounds''
                  [Lit ''~'', Num (Fin (of_nat burst24)), Lit '' outgoing transfers in last 24h.'']]
          else [])
       @ (if length tiny \<ge> 6
          then [factor ''medium'' ''Dusting pattern''
                  [Num (Fin (of_nat (length tiny))), Lit '' tiny inbound transfers observed.'']]
          else if length tiny \<ge> 3
          then [factor ''low'' ''Possible dusting''
                  [Num (Fin (of_nat (length tiny))), Lit '' tiny inbound transfers observed.'']]
          else [])
       @ (if maxRepeats repeatOut \<ge> 8
          then [factor ''medium'' ''Repeated equal amounts''
                  [Lit ''Outbound transfers show repeated amount '', Lit (amountStr repeatOut),
                   Lit '' ETH.'']]
          else [])
       @ (if quickOut
          then [factor ''high'' (''Fresh funds '' @ rightwards_arrow @ '' fast outflow'')
                  [Lit (''Outbound occurred shortly after inbound ('' @ less_or_equal_sign @ ''10m).'')]]
          else [])
       @ (if touchedWatch
          then [factor ''low'' ''Dust watchlist touch''
                  [Lit ''History includes interaction with a watched address.'']]
          else []))"

text \<open>One round of the aggregation loop: the three tests on the severity, in order.\<close>

definition add_severity :: "int \<Rightarrow> factor \<Rightarrow> int" where
  "add_severity sc f =
     (let s1 = (if severity f = ''high'' then sc + 25 else sc);
          s2 = (if severity f = ''medium'' then s1 + 12 else s1)
      in if severity f = ''low'' then s2 + 6 else s2)"

text \<open>
  The aggregation: base 10, the loop, the blocklist floor, the clamp. The score is an
  integer throughout, which \<open>Math.round\<close> leaves as it is.
\<close>

definition aggregate :: "string list \<Rightarrow> string \<Rightarrow> factor list \<Rightarrow> risk_result" where
  "aggregate BADLIST_set address fs =
     (let score0 = foldl add_severity 10 fs;
          score1 = (if has BADLIST_set (toLowerCase address) then max score0 95 else score0);
          score2 = max 0 (min 100 score1);
          decision = (if score2 \<ge> 60 then ''block'' else ''allow'')
      in \<lparr>score = score2, decision = decision, factors = fs\<rparr>)"

text \<open>The four lookups of \<open>runRiskEval\<close>, each with the request id drawn for it.\<close>

definition lookup_code :: "upstream \<Rightarrow> nat \<Rightarrow> string \<Rightarrow> string \<Rightarrow> error + string option" where
  "lookup_code up rid url address = rpc (getCode up) rid url ''eth_getCode'' (Address_Latest address)"

definition lookup_nonce :: "upstream \<Rightarrow> nat \<Rightarrow> string \<Rightarrow> string \<Rightarrow> error + string" where
  "lookup_nonce up rid url address =
     rpc (getTransactionCount up) rid url ''eth_getTransactionCount'' (Address_Latest address)"

definition lookup_out ::
  "upstream \<Rightarrow> nat \<Rightarrow> string \<Rightarrow> string \<Rightarrow> error + raw_transfer list option" where
  "lookup_out up rid url address =
     rpc (getAssetTransfers up) rid url ''alchemy_getAssetTransfers'' (Transfers_From address)"

definition lookup_in ::
  "upstream \<Rightarrow> nat \<Rightarrow> string \<Rightarrow> string \<Rightarrow> error + raw_transfer list option" where
  "lookup_in up rid url address =
     rpc (getAssetTransfers up) rid url ''alchemy_getAssetTransfers'' (Transfers_To address)"

text \<open>
  \<open>runRiskEval(address, env)\<close>. \<open>random k\<close> is the request id drawn for the \<open>k\<close>-th
  call of \<open>rpc\<close>, \<open>nowMs\<close> the clock. The four lookups are awaited together: an error
  of the bytecode or of the nonce lookup rejects the whole (the bytecode one is reported
  when both fail), an error of a transfer lookup is replaced by an empty transfer list.
\<close>

definition runRiskEval ::
  "upstream \<Rightarrow> (nat \<Rightarrow> nat) \<Rightarrow> rat \<Rightarrow> string \<Rightarrow> env \<Rightarrow> error + risk_result" where
  "runRiskEval up random nowMs address env =
     (let ALCHEMY = or_else (ALCHEMY_SEPOLIA_URL env) []
      in if ALCHEMY = [] then Inl missing_ALCHEMY_SEPOLIA_URL
         else
           (let BADLIST_set = parseCsvList (BADLIST env);
                DUST_WATCH = parseCsvList (DUST_WATCHLIST env);
                code_r = lookup_code up (random 0) ALCHEMY address;
                nonce_r = lookup_nonce up (random 1) ALCHEMY address;
                outTxs = transfers_or_empty (lookup_out up (random 2) ALCHEMY address);
                inTxs = transfers_or_empty (lookup_in up (random 3) ALCHEMY address)
            in (case code_r of
                  Inl e \<Rightarrow> Inl e
                | Inr code \<Rightarrow>
                    (case nonce_r of
                       Inl e \<Rightarrow> Inl e
                     | Inr nonce \<Rightarrow>
                         (let out = map normalizeTransfer outTxs;
                              inn = map normalizeTransfer inTxs
                          in Inr (aggregate BADLIST_set address
                                    (risk_factors nowMs BADLIST_set DUST_WATCH address code nonce
                                       out inn)))))))"

subsection \<open>The request handler\<close>

text \<open>
  A request: its method, the path and the query parameters of its URL. The CORS headers
  every response gets are left out.
\<close>

record request =
  req_method :: string
  pathname :: string
  address_param :: "string option"
  chain_param :: "string option"
  ens_param :: "string option"

datatype safesend_body =
    No_Content
  | Health_Ok
  | Json_Error string nat "error option"
  | Assessment risk_result

definition jsonError :: "nat \<Rightarrow> string \<Rightarrow> error option \<Rightarrow> nat \<times> safesend_body" where
  "jsonError status code detail = (status, Json_Error code status detail)"

definition safesend_fetch ::
  "upstream \<Rightarrow> (nat \<Rightarrow> nat) \<Rightarrow> rat \<Rightarrow> request \<Rightarrow> env \<Rightarrow> nat \<times> safesend_body" where
  "safesend_fetch up random nowMs req env =
     (if req_method req = ''OPTIONS'' then (204, No_Content)
      else if pathname req = ''/health'' then (200, Health_Ok)
      else if pathname req = ''/check'' then
        (let address = trim (or_else (address_param req) []);
             chain = toLowerCase (or_else (chain_param req) ''sepolia'')
         in if \<not> hex_address address then jsonError 400 ''invalid_address'' None
            else if chain \<noteq> ''sepolia'' then jsonError 400 ''unsupported_chain'' None
            else (case runRiskEval up random nowMs address env of
                    Inr res \<Rightarrow> (200, Assessment res)
                  | Inl e \<Rightarrow> jsonError 500 ''server_error'' (Some e)))
      else jsonError 404 ''not_found'' None)"

section \<open>The worker of \<open>Safesend-worker/Worker.js\<close>\<close>

text \<open>
  The configuration. \<open>BAD_ENS_ADDRS\<close> is the parsed JSON object (empty when the text
  does not parse); \<open>DUST_THRESHOLD_ETH\<close> is \<open>None\<close> when the variable is unset or
  empty, and otherwise \<open>Number\<close> of its text.
\<close>

record worker_env =
  ALCHEMY_SEPOLIA_RPC :: "string option"
  BADLIST_ADDRESSES :: "string option"
  BAD_ENS_NAMES :: "string option"
  BAD_ENS_ADDRS :: "string \<rightharpoonup> string"
  DUST_THRESHOLD_ETH :: "jsnum option"

record finding =
  f_label :: string
  f_detail :: template
  f_level :: string

record worker_result =
  w_score :: int
  findings :: "finding list"

datatype worker_body = Json_Err string | Json_Result worker_result

text \<open>The \<open>rpc\<close> closure of the handler: the request id is always 1.\<close>

definition worker_rpc ::
  "(string \<Rightarrow> rpc_body \<Rightarrow> 'a http_reply) \<Rightarrow> string \<Rightarrow> string \<Rightarrow> rpc_params \<Rightarrow> error + 'a" where
  "worker_rpc endpoint url method params =
     (case endpoint url \<lparr>rpc_id = 1, rpc_method = method, rpc_params = params\<rparr> of
        Fetch_Rejected \<Rightarrow> Inl fetch_failed
      | Http status j \<Rightarrow>
          if \<not> response_ok status then Inl (rpc_http status)
          else (case j of
                  Rpc_Error code msg \<Rightarrow> Inl (rpc_message (or_else msg ''rpc_error''))
                | Rpc_Result res \<Rightarrow> Inr res))"

text \<open>
  One call of \<open>addFinding(label, detail, level, delta)\<close>: the finding it pushes and the
  delta it adds to the score. The handler's calls are collected in order; the findings
  are their first components, the score is the sum of their second components from 0.
\<close>

definition addFinding :: "string \<Rightarrow> template \<Rightarrow> string \<Rightarrow> int \<Rightarrow> (finding \<times> int) list" where
  "addFinding lab detail level delta = [(\<lparr>f_label = lab, f_detail = detail, f_level = level\<rparr>, delta)]"

text \<open>\<open>xs.split(',').map(s => s.trim()).filter(Boolean)\<close> of the lowercased text.\<close>

definition csv_entries :: "string option \<Rightarrow> string list" where
  "csv_entries str =
     filter (\<lambda>s. s \<noteq> []) (map trim (split_on CHR '','' (toLowerCase (or_else str []))))"

text \<open>Blocklists and negative reputation.\<close>

definition blocklist_findings :: "worker_env \<Rightarrow> string \<Rightarrow> (finding \<times> int) list" where
  "blocklist_findings env addr =
     (if toLowerCase addr \<in> set (csv_entries (BADLIST_ADDRESSES env))
      then addFinding ''Blocklisted'' [Lit ''Address appears on internal blocklist.''] ''high'' 90
      else [])
   @ (case BAD_ENS_ADDRS env (toLowerCase addr) of
        None \<Rightarrow> []
      | Some name \<Rightarrow>
          if name = [] then []
          else addFinding ''Negative ENS link'' [Lit ''Associated with '', Lit name] ''high'' 25)"

text \<open>\<open>/363d3d/i.test(s)\<close>: the pattern occurs somewhere in \<open>s\<close>, in either case.\<close>

fun includes_str :: "string \<Rightarrow> string \<Rightarrow> bool" where
  "includes_str pat [] = (pat = [])"
| "includes_str pat (c # cs) = (take (length pat) (c # cs) = pat \<or> includes_str pat cs)"

definition has_proxy_pattern :: "string \<Rightarrow> bool" where
  "has_proxy_pattern s = includes_str ''363d3d'' (toLowerCase s)"

text \<open>Contract or bytecode: the \<open>try\<close> block around the bytecode lookup and its \<open>catch\<close>.\<close>

definition bytecode_findings :: "error + string option \<Rightarrow> (finding \<times> int) list" where
  "bytecode_findings lookup =
     (case lookup of
        Inl e \<Rightarrow> addFinding ''Unknown type'' [Lit ''Could not verify contract/EOA.''] ''low'' 0
      | Inr bytecode \<Rightarrow>
          (case bytecode of
             None \<Rightarrow> addFinding ''EOA'' [Lit ''Recipient is an externally owned address.''] ''low'' 0
           | Some code \<Rightarrow>
               if code \<noteq> [] \<and> code \<noteq> ''0x''
               then addFinding ''Contract'' [Lit ''Recipient is a contract address.''] ''medium'' 10
                  @ (if has_proxy_pattern (drop 2 code)
                     then addFinding ''Proxy pattern'' [Lit ''EIP-1167 minimal proxy detected.'']
                            ''medium'' 6
                     else [])
                  @ (if length code < 200
                     then addFinding ''Tiny bytecode'' [Lit ''Contract runtime is unusually short.'']
                            ''medium'' 6
                     else [])
               else addFinding ''EOA'' [Lit ''Recipient is an externally owned address.''] ''low'' 0))"

text \<open>\<open>recentMs\<close>: the parsed block timestamp, 0 when the record has none.\<close>

definition recentMs :: "raw_transfer \<Rightarrow> jsnum" where
  "recentMs t = (case raw_blockTimestamp t of None \<Rightarrow> Fin 0 | Some d \<Rightarrow> d)"

text \<open>
  \<open>ts ? (Date.now() - ts) / 86400000 : null\<close>, with \<open>None\<close> for null. The quotient is
  exact here; a double's rounding of it crosses none of the bounds 1, 7, 30 and 180 it is
  compared with.
\<close>

fun days_since :: "rat \<Rightarrow> jsnum \<Rightarrow> jsnum option" where
  "days_since now NaN = None"
| "days_since now (Fin ts) = (if ts = 0 then None else Some (Fin ((now - ts) / 86400000)))"
| "days_since now PosInf = Some NegInf"
| "days_since now NegInf = Some PosInf"

text \<open>A comparison turns null into the Number 0.\<close>

definition to_number :: "jsnum option \<Rightarrow> jsnum" where
  "to_number d = (case d of None \<Rightarrow> Fin 0 | Some n \<Rightarrow> n)"

text \<open>\<open>parseEth\<close>, on the value as the record holds it.\<close>

definition parseEth :: "jsnum option \<Rightarrow> jsnum" where
  "parseEth v = (case v of None \<Rightarrow> Fin 0 | Some n \<Rightarrow> n)"

definition finite_values :: "jsnum list \<Rightarrow> rat list" where
  "finite_values ns = concat (map (\<lambda>n. case n of Fin x \<Rightarrow> [x] | _ \<Rightarrow> []) ns)"

text \<open>The median of the sorted values; called on three values or more.\<close>

definition median_of :: "rat list \<Rightarrow> rat" where
  "median_of sorted_values =
     (let mid = length sorted_values div 2
      in if length sorted_values mod 2 \<noteq> 0 then sorted_values ! mid
         else (sorted_values ! (mid - 1) + sorted_values ! mid) / 2)"

text \<open>
  Transfers and activity, from the two transfer lists as returned. \<open>now1\<close> and \<open>now2\<close>
  are the two readings of \<open>Date.now()\<close>.
\<close>

definition activity_findings ::
  "rat \<Rightarrow> rat \<Rightarrow> jsnum \<Rightarrow> raw_transfer list \<Rightarrow> raw_transfer list \<Rightarrow> (finding \<times> int) list" where
  "activity_findings now1 now2 DUST_THRESHOLD outs ins =
     (let all = outs @ ins;
          latestTs = (if all \<noteq> [] then Math_max (map recentMs all) else Fin 0);
          firstTs = (if all \<noteq> [] then Math_min (map recentMs all) else Fin 0);
          daysSinceFirst = days_since now1 firstTs;
          daysSinceLatest = days_since now2 latestTs
      in if all = []
         then addFinding ''No history'' [Lit ''No transactions found on Sepolia.''] ''medium'' 22
         else
           (if js_less (to_number daysSinceFirst) (Fin 1)
            then addFinding ''New address'' [Lit ''First seen < 24h.''] ''high'' 28
            else if js_less (to_number daysSinceFirst) (Fin 7)
            then addFinding ''Newish address'' [Lit ''First seen < 7d.''] ''medium'' 18
            else if js_less (to_number daysSinceFirst) (Fin 30)
            then addFinding ''Recent address'' [Lit ''First seen < 30d.''] ''low'' 8
            else [])
         @ (if length all < 5
            then addFinding ''Low activity'' [Lit ''Fewer than 5 total transfers.''] ''medium'' 10
            else [])
         @ (if outs = []
            then addFinding ''Inbound only'' [Lit ''No outbound history.''] ''low'' 6
            else [])
         @ (let uniqueRecipients =
                  remdups (filter (\<lambda>s. s \<noteq> []) (map (\<lambda>t. toLowerCase (or_else (raw_to t) [])) outs))
            in if length uniqueRecipients \<ge> 10
               then addFinding ''Fan-out''
                      [Num (Fin (of_nat (length uniqueRecipients))), Lit '' distinct recent recipients.'']
                      ''high'' 18
               else [])
         @ (let senders = filter (\<lambda>s. s \<noteq> []) (map (\<lambda>t. toLowerCase (or_else (raw_from t) [])) ins);
                uniqueSenders = remdups senders
            in if length ins \<ge> 5 \<and> length uniqueSenders \<ge> 5 \<and> outs = []
               then addFinding ''Inbound burst''
                      [Lit ''Many unique inbound senders, no outbound history.''] ''medium'' 10
               else [])
         @ (let incomingValues = finite_values (map (\<lambda>t. parseEth (raw_value t)) ins)
            in if length incomingValues \<ge> 3
               then (let median = median_of (sort incomingValues)
                     in if js_less (Fin 0) (Fin median) \<and> js_less (Fin median) DUST_THRESHOLD
                        then addFinding ''Dusting''
                               [Lit ''Median inbound < '', Num DUST_THRESHOLD, Lit '' ETH.'']
                               ''medium'' 12
                        else [])
               else [])
         @ (if js_less (Fin 180) (to_number daysSinceLatest)
            then addFinding ''Dormant'' [Lit ''Last activity > 180 days ago. Slightly safer.'']
                   ''low'' (- 5)
            else []))"

text \<open>ENS negatives, when the request passes \<open>ens\<close>.\<close>

definition ens_findings :: "worker_env \<Rightarrow> string option \<Rightarrow> (finding \<times> int) list" where
  "ens_findings env ens_opt =
     (let ens = or_else ens_opt []
      in if ens \<noteq> [] \<and> toLowerCase ens \<in> set (csv_entries (BAD_ENS_NAMES env))
         then addFinding ''ENS flagged'' [Lit ens, Lit '' has negative reputation.''] ''high'' 20
         else [])"

text \<open>The three lookups of the handler.\<close>

definition worker_lookup_code :: "upstream \<Rightarrow> string \<Rightarrow> string \<Rightarrow> error + string option" where
  "worker_lookup_code up url addr = worker_rpc (getCode up) url ''eth_getCode'' (Address_Latest addr)"

definition worker_lookup_out :: "upstream \<Rightarrow> string \<Rightarrow> string \<Rightarrow> error + raw_transfer list option" where
  "worker_lookup_out up url addr =
     worker_rpc (getAssetTransfers up) url ''alchemy_getAssetTransfers'' (Transfers_From addr)"

definition worker_lookup_in :: "upstream \<Rightarrow> string \<Rightarrow> string \<Rightarrow> error + raw_transfer list option" where
  "worker_lookup_in up url addr =
     worker_rpc (getAssetTransfers up) url ''alchemy_getAssetTransfers'' (Transfers_To addr)"

text \<open>
  The calls of \<open>addFinding\<close> of one request, in order. A failed bytecode lookup is
  caught by the \<open>try\<close> around it, a failed transfer lookup is replaced by an empty
  transfer list.
\<close>

definition worker_calls ::
  "upstream \<Rightarrow> rat \<Rightarrow> rat \<Rightarrow> string \<Rightarrow> string \<Rightarrow> string option \<Rightarrow> worker_env \<Rightarrow>
   (finding \<times> int) list" where
  "worker_calls up now1 now2 url addr ens env =
     (let DUST_THRESHOLD = (case DUST_THRESHOLD_ETH env of None \<Rightarrow> Fin (2 / 100000) | Some n \<Rightarrow> n);
          bytecode = worker_lookup_code up url addr;
          outs = transfers_or_empty (worker_lookup_out up url addr);
          ins = transfers_or_empty (worker_lookup_in up url addr)
      in blocklist_findings env addr
       @ bytecode_findings bytecode
       @ activity_findings now1 now2 DUST_THRESHOLD outs ins
       @ ens_findings env ens)"

text \<open>The handler: the checks of the request, the findings, the clamp of the score.\<close>

definition worker_fetch ::
  "upstream \<Rightarrow> rat \<Rightarrow> rat \<Rightarrow> request \<Rightarrow> worker_env \<Rightarrow> nat \<times> worker_body" where
  "worker_fetch up now1 now2 req env =
     (if pathname req \<noteq> ''/check'' then (404, Json_Err ''not_found'')
      else
        (let addr = trim (or_else (address_param req) []);
             chain = toLowerCase (or_else (chain_param req) ''sepolia'')
         in if \<not> hex_address addr then (400, Json_Err ''bad_address'')
            else if chain \<noteq> ''sepolia'' then (400, Json_Err ''unsupported_chain'')
            else
              (let url = or_else (ALCHEMY_SEPOLIA_RPC env) []
               in if url = [] then (500, Json_Err ''missing_ALCHEMY_SEPOLIA_RPC'')
                  else
                    (let calls = worker_calls up now1 now2 url addr (ens_param req) env;
                         score0 = 0 + sum_list (map snd calls);
                         score1 = max 0 (min 100 score0)
                     in (200, Json_Result \<lparr>w_score = score1, findings = map fst calls\<rparr>)))))"

section \<open>Vocabulary of the specification and sample inputs\<close>



text \<open>
  The upstream responses are fixed: the reply to a request depends on its URL, method
  and parameters, not on its request id.
\<close>

definition id_blind :: "upstream \<Rightarrow> bool" where
  "id_blind up =
     (\<forall>url b b'. rpc_method b = rpc_method b' \<and> rpc_params b = rpc_params b' \<longrightarrow>
        getCode up url b = getCode up url b' \<and>
        getTransactionCount up url b = getTransactionCount up url b' \<and>
        getAssetTransfers up url b = getAssetTransfers up url b')"

text \<open>A provider with one fixed reply per lookup.\<close>

definition static_upstream ::
  "string option http_reply \<Rightarrow> string http_reply \<Rightarrow> raw_transfer list option http_reply \<Rightarrow>
   raw_transfer list option http_reply \<Rightarrow> upstream" where
  "static_upstream code nonce outs ins =
     \<lparr>getCode = (\<lambda>url b. code),
      getTransactionCount = (\<lambda>url b. nonce),
      getAssetTransfers = (\<lambda>url b. case rpc_params b of
                                         Transfers_From a \<Rightarrow> outs
                                       | Transfers_To a \<Rightarrow> ins
                                       | Address_Latest a \<Rightarrow> Fetch_Rejected)\<rparr>"

definition ok :: "'a \<Rightarrow> 'a http_reply" where
  "ok res = Http 200 (Rpc_Result res)"

definition sample_address :: string where
  "sample_address = ''0x000000000000000000000000000000000000dEaD''"

definition check_request :: "string \<Rightarrow> request" where
  "check_request a =
     \<lparr>req_method = ''GET'', pathname = ''/check'', address_param = Some a, chain_param = None,
      ens_param = None\<rparr>"

definition plain_env :: env where
  "plain_env = \<lparr>ALCHEMY_SEPOLIA_URL = Some ''https://rpc'', BADLIST = None, DUST_WATCHLIST = None\<rparr>"

definition plain_worker_env :: worker_env where
  "plain_worker_env =
     \<lparr>ALCHEMY_SEPOLIA_RPC = Some ''https://rpc'', BADLIST_ADDRESSES = None, BAD_ENS_NAMES = None,
      BAD_ENS_ADDRS = Map.empty, DUST_THRESHOLD_ETH = None\<rparr>"

text \<open>A transfer record with a counterparty and nothing else, and one with a timestamp.\<close>

definition bare_transfer :: raw_transfer where
  "bare_transfer =
     \<lparr>raw_hash = Some ''0x01'', raw_from = Some ''0x00000000000000000000000000000000000000AA'',
      raw_to = Some ''0x000000000000000000000000000000000000dEaD'', raw_value = None,
      raw_blockTimestamp = None\<rparr>"

definition transfer_at :: "rat \<Rightarrow> raw_transfer" where
  "transfer_at ms = bare_transfer\<lparr>raw_blockTimestamp := Some (Fin ms)\<rparr>"

text \<open>What a response of either worker says: the score with the decision, the labels.\<close>

definition verdict :: "error + risk_result \<Rightarrow> (int \<times> string) option" where
  "verdict res = (case res of Inl e \<Rightarrow> None | Inr r \<Rightarrow> Some (score r, decision r))"

definition factor_labels :: "error + risk_result \<Rightarrow> string list" where
  "factor_labels res = (case res of Inl e \<Rightarrow> [] | Inr r \<Rightarrow> map label (factors r))"

definition worker_score :: "nat \<times> worker_body \<Rightarrow> int option" where
  "worker_score resp = (case snd resp of Json_Err code \<Rightarrow> None | Json_Result r \<Rightarrow> Some (w_score r))"

definition worker_labels :: "nat \<times> worker_body \<Rightarrow> string list" where
  "worker_labels resp =
     (case snd resp of Json_Err code \<Rightarrow> [] | Json_Result r \<Rightarrow> map f_label (findings r))"


text \<open>The sum of the deltas of a sequence of \<open>addFinding\<close> calls.\<close>

definition delta :: "(finding \<times> int) list \<Rightarrow> int" where
  "delta calls = sum_list (map snd calls)"

text \<open>An account without bytecode, transactions or transfers.\<close>

definition quiet_upstream :: upstream where
  "quiet_upstream = static_upstream (ok (Some ''0x'')) (ok ''0x0'') (ok (Some [])) (ok (Some []))"

text \<open>The sample address on the blocklist of either worker, written in upper case.\<close>

definition blocking_env :: env where
  "blocking_env = plain_env\<lparr>BADLIST := Some '' 0X000000000000000000000000000000000000DEAD ''\<rparr>"

definition blocking_worker_env :: worker_env where
  "blocking_worker_env =
     plain_worker_env\<lparr>BADLIST_ADDRESSES := Some ''0x000000000000000000000000000000000000DEAD''\<rparr>"

text \<open>
  An account without bytecode that sent five transfers, all at the instant 1000; read
  200 days later.
\<close>

definition dormant_upstream :: upstream where
  "dormant_upstream =
     static_upstream (ok (Some ''0x'')) (ok ''0x5'') (ok (Some (replicate 5 (transfer_at 1000))))
       (ok (Some []))"

definition two_hundred_days_later :: rat where
  "two_hundred_days_later = 1000 + 200 * 86400000"


text \<open>A provider whose nonce is not a hex number.\<close>

definition bad_nonce_upstream :: upstream where
  "bad_nonce_upstream =
     static_upstream (ok (Some ''0x'')) (ok ''not-hex'') (ok (Some [])) (ok (Some []))"

text \<open>One inbound transfer whose record carries no timestamp.\<close>

definition undated_upstream :: upstream where
  "undated_upstream =
     static_upstream (ok (Some ''0x'')) (ok ''0x0'') (ok (Some [])) (ok (Some [bare_transfer]))"

text \<open>
  Funds come in at the instant 1000000; one transfer goes out five minutes later and
  another one an hour later. Both lists are in descending order.
\<close>

definition fast_out_upstream :: upstream where
  "fast_out_upstream =
     static_upstream (ok (Some ''0x'')) (ok ''0x9'')
       (ok (Some [transfer_at (1000000 + 60 * 60 * 1000), transfer_at (1000000 + 5 * 60 * 1000)]))
       (ok (Some [transfer_at 1000000]))"





section \<open>Auxiliary facts\<close>

lemma runRiskEval_Inr:
  assumes "runRiskEval up random nowMs address env = Inr r"
  shows "\<exists>fs. r = aggregate (parseCsvList (BADLIST env)) address fs"
  using assms
  by (auto simp: runRiskEval_def Let_def split: if_splits sum.splits)

lemma aggregate_range: "0 \<le> score (aggregate B a fs) \<and> score (aggregate B a fs) \<le> 100"
  by (simp add: aggregate_def Let_def)

lemma aggregate_blocklisted:
  assumes "has B (toLowerCase a)"
  shows "95 \<le> score (aggregate B a fs) \<and> decision (aggregate B a fs) = ''block''"
  using assms by (simp add: aggregate_def Let_def)

lemma worker_fetch_result:
  assumes "worker_fetch up now1 now2 req env = (st, Json_Result r)"
  shows "st = 200 \<and>
    r = (let calls = worker_calls up now1 now2 (or_else (ALCHEMY_SEPOLIA_RPC env) [])
                       (trim (or_else (address_param req) [])) (ens_param req) env
         in \<lparr>w_score = max 0 (min 100 (delta calls)), findings = map fst calls\<rparr>)"
  using assms
  by (auto simp: worker_fetch_def delta_def Let_def split: if_splits)

lemma delta_Nil: "delta [] = 0"
  by (simp add: delta_def)

lemma delta_append: "delta (xs @ ys) = delta xs + delta ys"
  by (simp add: delta_def)

lemma delta_addFinding: "delta (addFinding l d v n) = n"
  by (simp add: delta_def addFinding_def)

lemma delta_if_lower: "l \<le> delta xs \<Longrightarrow> l \<le> delta ys \<Longrightarrow> l \<le> delta (if c then xs else ys)"
  by simp

lemma lower_step: "(0::int) \<le> a \<Longrightarrow> l \<le> b \<Longrightarrow> l \<le> a + b"
  by simp

lemma blocklist_delta_nonneg: "0 \<le> delta (blocklist_findings env addr)"
  by (simp add: blocklist_findings_def delta_append delta_addFinding delta_Nil split: option.splits)

lemma blocklist_delta_hit:
  "toLowerCase addr \<in> set (csv_entries (BADLIST_ADDRESSES env)) \<Longrightarrow>
   90 \<le> delta (blocklist_findings env addr)"
  by (simp add: blocklist_findings_def delta_append delta_addFinding delta_Nil split: option.splits)

lemma bytecode_delta_nonneg: "0 \<le> delta (bytecode_findings lookup)"
  by (simp add: bytecode_findings_def delta_append delta_addFinding delta_Nil
           split: option.splits sum.splits)

lemma ens_delta_nonneg: "0 \<le> delta (ens_findings env ens)"
  by (simp add: ens_findings_def delta_addFinding delta_Nil Let_def)

lemma activity_delta_lower: "- 5 \<le> delta (activity_findings now1 now2 dust outs ins)"
  unfolding activity_findings_def Let_def
  apply (rule delta_if_lower)
   apply (simp add: delta_addFinding)
  apply (simp only: delta_append)
  apply (intro lower_step delta_if_lower)
  apply (simp_all only: delta_addFinding delta_Nil)
  done

lemma worker_calls_blocklisted:
  assumes "toLowerCase addr \<in> set (csv_entries (BADLIST_ADDRESSES env))"
  shows "85 \<le> delta (worker_calls up now1 now2 url addr ens env)"
proof -
  let ?dust = "case DUST_THRESHOLD_ETH env of None \<Rightarrow> Fin (2 / 100000) | Some n \<Rightarrow> n"
  let ?outs = "transfers_or_empty (worker_lookup_out up url addr)"
  let ?ins = "transfers_or_empty (worker_lookup_in up url addr)"
  have b: "90 \<le> delta (blocklist_findings env addr)"
    using assms by (rule blocklist_delta_hit)
  have c: "0 \<le> delta (bytecode_findings (worker_lookup_code up url addr))"
    by (rule bytecode_delta_nonneg)
  have a: "- 5 \<le> delta (activity_findings now1 now2 ?dust ?outs ?ins)"
    by (rule activity_delta_lower)
  have e: "0 \<le> delta (ens_findings env ens)"
    by (rule ens_delta_nonneg)
  have "delta (worker_calls up now1 now2 url addr ens env) =
        delta (blocklist_findings env addr) + delta (bytecode_findings (worker_lookup_code up url addr))
        + delta (activity_findings now1 now2 ?dust ?outs ?ins) + delta (ens_findings env ens)"
    by (simp add: worker_calls_def Let_def delta_append)
  with a b c e show ?thesis by linarith
qed

lemma rpc_id_blind:
  assumes "\<And>b b'. rpc_method b = rpc_method b' \<and> rpc_params b = rpc_params b' \<Longrightarrow>
             endpoint url b = endpoint url b'"
  shows "rpc endpoint rid url m p = rpc endpoint rid' url m p"
proof -
  have "endpoint url \<lparr>rpc_id = rid, rpc_method = m, rpc_params = p\<rparr> =
        endpoint url \<lparr>rpc_id = rid', rpc_method = m, rpc_params = p\<rparr>"
    by (rule assms) simp
  then show ?thesis by (simp add: rpc_def)
qed




















section \<open>The claims\<close>

text \<open>
  C1, as amended. With the evaluated address on the blocklist, \<open>runRiskEval\<close> returns a
  score of at least 95 with the decision \<open>block\<close>, whatever else fires. The worker of
  \<open>Worker.js\<close> has no floor and no decision: the blocklist hit weighs 90, the other
  weights are not negative except the \<open>- 5\<close> of Dormant, so its score is at least 85.
\<close>

theorem blocklisted_score:
  "(has (parseCsvList (BADLIST env)) (toLowerCase address) \<and>
    runRiskEval up random nowMs address env = Inr r \<longrightarrow>
      95 \<le> score r \<and> decision r = ''block'') \<and>
   (toLowerCase (trim (or_else (address_param req) [])) \<in> set (csv_entries (BADLIST_ADDRESSES wenv)) \<and>
    worker_fetch wup now1 now2 req wenv = (st, Json_Result wr) \<longrightarrow>
      85 \<le> w_score wr)"
proof (intro conjI impI)
  assume a: "has (parseCsvList (BADLIST env)) (toLowerCase address) \<and>
             runRiskEval up random nowMs address env = Inr r"
  then obtain fs where "r = aggregate (parseCsvList (BADLIST env)) address fs"
    using runRiskEval_Inr by blast
  with a show "95 \<le> score r" "decision r = ''block''"
    using aggregate_blocklisted by simp_all
next
  assume a: "toLowerCase (trim (or_else (address_param req) [])) \<in> set (csv_entries (BADLIST_ADDRESSES wenv)) \<and>
             worker_fetch wup now1 now2 req wenv = (st, Json_Result wr)"
  let ?calls = "worker_calls wup now1 now2 (or_else (ALCHEMY_SEPOLIA_RPC wenv) [])
                  (trim (or_else (address_param req) [])) (ens_param req) wenv"
  from a have "85 \<le> delta ?calls"
    using worker_calls_blocklisted by blast
  moreover from a have "w_score wr = max 0 (min 100 (delta ?calls))"
    using worker_fetch_result [of wup now1 now2 req wenv st wr] by (simp add: Let_def)
  ultimately show "85 \<le> w_score wr" by simp
qed

theorem blocklisted_score_witness:
  "has (parseCsvList (BADLIST blocking_env)) (toLowerCase sample_address) \<and>
   (\<exists>r. runRiskEval bad_nonce_upstream (\<lambda>k. k) 0 sample_address blocking_env = Inr r \<and>
        95 \<le> score r \<and> decision r = ''block'') \<and>
   toLowerCase (trim (or_else (address_param (check_request sample_address)) []))
     \<in> set (csv_entries (BADLIST_ADDRESSES blocking_worker_env)) \<and>
   (\<exists>wr. worker_fetch dormant_upstream two_hundred_days_later two_hundred_days_later
            (check_request sample_address) blocking_worker_env = (200, Json_Result wr) \<and>
         85 \<le> w_score wr)"
proof -
  let ?r = "\<lparr>score = 95, decision = ''block'',
          factors = [factor ''high'' ''On blocklist''
                       [Lit ''Recipient is present in a locally configured blocklist.''],
                     factor ''medium'' ''New address''
                       [Lit ''Recipient has no prior transactions (nonce 0).'']]\<rparr>"
  let ?wr = "\<lparr>w_score = 85,
         findings = map fst
           (addFinding ''Blocklisted'' [Lit ''Address appears on internal blocklist.''] ''high'' 90 @
            addFinding ''EOA'' [Lit ''Recipient is an externally owned address.''] ''low'' 0 @
            addFinding ''Dormant'' [Lit ''Last activity > 180 days ago. Slightly safer.''] ''low''
              (- 5))\<rparr>"
  have h1: "has (parseCsvList (BADLIST blocking_env)) (toLowerCase sample_address)"
    by code_simp
  have h2: "runRiskEval bad_nonce_upstream (\<lambda>k. k) 0 sample_address blocking_env = Inr ?r"
    by code_simp
  have h3: "toLowerCase (trim (or_else (address_param (check_request sample_address)) []))
              \<in> set (csv_entries (BADLIST_ADDRESSES blocking_worker_env))"
    by code_simp
  have h4: "worker_fetch dormant_upstream two_hundred_days_later two_hundred_days_later
              (check_request sample_address) blocking_worker_env = (200, Json_Result ?wr)"
    by code_simp
  from blocklisted_score [of blocking_env sample_address bad_nonce_upstream "\<lambda>k. k" 0 ?r
      "check_request sample_address" blocking_worker_env dormant_upstream two_hundred_days_later
      two_hundred_days_later 200 ?wr] h1 h2 h3 h4
  show ?thesis by blast
qed

theorem blocklisted_worker_counterexample:
  "toLowerCase (trim (or_else (address_param (check_request sample_address)) []))
     \<in> set (csv_entries (BADLIST_ADDRESSES blocking_worker_env)) \<and>
   worker_score (worker_fetch dormant_upstream two_hundred_days_later two_hundred_days_later
                   (check_request sample_address) blocking_worker_env) = Some 85 \<and>
   worker_labels (worker_fetch dormant_upstream two_hundred_days_later two_hundred_days_later
                    (check_request sample_address) blocking_worker_env) =
     [''Blocklisted'', ''EOA'', ''Dormant'']"
  by code_simp

text \<open>
  C2. Whatever the upstream responses, the configuration and the findings that fire, a
  score returned by either worker is an integer between 0 and 100.
\<close>

theorem score_in_range:
  "(runRiskEval up random nowMs address env = Inr r \<longrightarrow> 0 \<le> score r \<and> score r \<le> 100) \<and>
   (worker_fetch wup now1 now2 req wenv = (st, Json_Result wr) \<longrightarrow>
      0 \<le> w_score wr \<and> w_score wr \<le> 100)"
proof (intro conjI impI)
  assume "runRiskEval up random nowMs address env = Inr r"
  then obtain fs where "r = aggregate (parseCsvList (BADLIST env)) address fs"
    using runRiskEval_Inr by blast
  then show "0 \<le> score r" "score r \<le> 100"
    using aggregate_range by simp_all
next
  assume "worker_fetch wup now1 now2 req wenv = (st, Json_Result wr)"
  from worker_fetch_result [OF this] show "0 \<le> w_score wr" "w_score wr \<le> 100"
    by (simp_all add: Let_def)
qed

theorem score_in_range_witness:
  "(\<exists>r. runRiskEval quiet_upstream (\<lambda>k. k) 0 sample_address blocking_env = Inr r \<and>
        0 \<le> score r \<and> score r \<le> 100) \<and>
   (\<exists>wr. worker_fetch dormant_upstream two_hundred_days_later two_hundred_days_later
            (check_request sample_address) blocking_worker_env = (200, Json_Result wr) \<and>
         0 \<le> w_score wr \<and> w_score wr \<le> 100)"
proof -
  let ?r = "\<lparr>score = 95, decision = ''block'',
            factors = [factor ''high'' ''On blocklist''
                         [Lit ''Recipient is present in a locally configured blocklist.''],
                       factor ''medium'' ''New address''
                         [Lit ''Recipient has no prior transactions (nonce 0).'']]\<rparr>"
  let ?wr = "\<lparr>w_score = 85,
         findings = map fst
           (addFinding ''Blocklisted'' [Lit ''Address appears on internal blocklist.''] ''high'' 90 @
            addFinding ''EOA'' [Lit ''Recipient is an externally owned address.''] ''low'' 0 @
            addFinding ''Dormant'' [Lit ''Last activity > 180 days ago. Slightly safer.''] ''low''
              (- 5))\<rparr>"
  have h1: "runRiskEval quiet_upstream (\<lambda>k. k) 0 sample_address blocking_env = Inr ?r"
    by code_simp
  have h2: "worker_fetch dormant_upstream two_hundred_days_later two_hundred_days_later
              (check_request sample_address) blocking_worker_env = (200, Json_Result ?wr)"
    by code_simp
  from score_in_range [of quiet_upstream "\<lambda>k. k" 0 sample_address blocking_env ?r
      dormant_upstream two_hundred_days_later two_hundred_days_later
      "check_request sample_address" blocking_worker_env 200 ?wr] h1 h2
  show ?thesis by blast
qed









text \<open>
  C6. The code departs from the claim: one inbound transfer whose record carries no
  timestamp has the normalized timestamp 0, and the worker of \<open>Worker.js\<close> answers with
  the high finding New address for it. The age in days is null there, and the comparison
  \<open>null < 1\<close> holds. In the other worker \<open>freshInThenOut\<close> holds of two such records,
  whose timestamps 0 it subtracts.
\<close>

theorem undated_history_fires_new_address:
  "timestamp (normalizeTransfer bare_transfer) = 0 \<and>
   recentMs bare_transfer = Fin 0 \<and>
   days_since 1700000000000 (Math_min (map recentMs [bare_transfer])) = None \<and>
   worker_labels (worker_fetch undated_upstream 1700000000000 1700000000000
                    (check_request sample_address) plain_worker_env) =
     [''EOA'', ''New address'', ''Low activity'', ''Inbound only''] \<and>
   worker_score (worker_fetch undated_upstream 1700000000000 1700000000000
                   (check_request sample_address) plain_worker_env) = Some 44 \<and>
   freshInThenOut [normalizeTransfer bare_transfer] [normalizeTransfer bare_transfer]
     (10 * 60 * 1000) = True"
  by code_simp




text \<open>
  C8. The code departs from the claim: with funds coming in at the instant 1000000, one
  transfer going out five minutes later and another one an hour later, an outbound
  transfer lies within ten minutes after the latest inbound one, yet \<open>freshInThenOut\<close>
  is false and the evaluation carries no such factor. The search takes the first
  outbound transfer of the descending list, which is the latest one.
\<close>

theorem fresh_in_then_out_misses_fast_outflow:
  "map timestamp (map normalizeTransfer [transfer_at 1000000]) = [1000000] \<and>
   map timestamp (map normalizeTransfer
     [transfer_at (1000000 + 60 * 60 * 1000), transfer_at (1000000 + 5 * 60 * 1000)]) = [4600000, 1300000] \<and>
   list_ex (\<lambda>out. 1000000 \<le> timestamp out \<and> timestamp out - 1000000 \<le> 10 * 60 * 1000)
     (map normalizeTransfer
        [transfer_at (1000000 + 60 * 60 * 1000), transfer_at (1000000 + 5 * 60 * 1000)]) \<and>
   freshInThenOut (map normalizeTransfer [transfer_at 1000000])
     (map normalizeTransfer
        [transfer_at (1000000 + 60 * 60 * 1000), transfer_at (1000000 + 5 * 60 * 1000)])
     (10 * 60 * 1000) = False \<and>
   verdict (runRiskEval fast_out_upstream (\<lambda>k. k) 5000000 sample_address plain_env) = Some (10, ''allow'') \<and>
   factor_labels (runRiskEval fast_out_upstream (\<lambda>k. k) 5000000 sample_address plain_env) = []"
  by code_simp

text \<open>
  C9. With upstream responses that do not depend on the request id, with the same
  configuration and the same clock, the evaluation returns the same result whatever
  request ids are drawn.
\<close>

theorem request_id_does_not_leak:
  assumes "id_blind up"
  shows "runRiskEval up random nowMs address env = runRiskEval up random' nowMs address env \<and>
         safesend_fetch up random nowMs req env = safesend_fetch up random' nowMs req env"
proof -
  have code: "lookup_code up rid url a = lookup_code up rid' url a" for rid rid' url a
    unfolding lookup_code_def by (rule rpc_id_blind) (use assms in \<open>unfold id_blind_def, blast\<close>)
  have nonce: "lookup_nonce up rid url a = lookup_nonce up rid' url a" for rid rid' url a
    unfolding lookup_nonce_def by (rule rpc_id_blind) (use assms in \<open>unfold id_blind_def, blast\<close>)
  have out: "lookup_out up rid url a = lookup_out up rid' url a" for rid rid' url a
    unfolding lookup_out_def by (rule rpc_id_blind) (use assms in \<open>unfold id_blind_def, blast\<close>)
  have inn: "lookup_in up rid url a = lookup_in up rid' url a" for rid rid' url a
    unfolding lookup_in_def by (rule rpc_id_blind) (use assms in \<open>unfold id_blind_def, blast\<close>)
  have run: "runRiskEval up random nowMs a env = runRiskEval up random' nowMs a env" for a
    unfolding runRiskEval_def
    by (simp only: code [of "random 0" _ _ "random' 0"] nonce [of "random 1" _ _ "random' 1"]
          out [of "random 2" _ _ "random' 2"] inn [of "random 3" _ _ "random' 3"])
  show ?thesis
    by (simp add: run safesend_fetch_def Let_def)
qed

theorem request_id_does_not_leak_witness:
  "id_blind fast_out_upstream \<and>
   runRiskEval fast_out_upstream (\<lambda>k. k) 5000000 sample_address plain_env =
     runRiskEval fast_out_upstream (\<lambda>k. 7 * k + 1) 5000000 sample_address plain_env \<and>
   safesend_fetch fast_out_upstream (\<lambda>k. k) 5000000 (check_request sample_address) plain_env =
     safesend_fetch fast_out_upstream (\<lambda>k. 7 * k + 1) 5000000 (check_request sample_address) plain_env"
proof -
  have h: "id_blind fast_out_upstream"
    by (simp add: id_blind_def fast_out_upstream_def static_upstream_def)
  from request_id_does_not_leak [OF h] h show ?thesis
    by blast
qed



end
